theory Spec2Isabelle
  imports Main
begin

section \<open>The severity scale and the colour table of logger.go\<close>

text \<open>
  \<^verbatim>\<open>type MessageLevel int\<close>. Levels are only compared, used as table indices and
  printed; no arithmetic is done on them, so the unbounded integers lose nothing.
\<close>

type_synonym MessageLevel = int

text \<open>The colour constants: \<^verbatim>\<open>_ = iota + 30\<close> (black), then red to magenta.\<close>

definition ColorRed :: int where "ColorRed = 1 + 30"
definition ColorGreen :: int where "ColorGreen = 2 + 30"
definition ColorYellow :: int where "ColorYellow = 3 + 30"
definition ColorBlue :: int where "ColorBlue = 4 + 30"
definition ColorMagenta :: int where "ColorMagenta = 5 + 30"

text \<open>The level constants: \<^verbatim>\<open>NOTSET = iota\<close>, then \<^verbatim>\<open>MessageLevel(10 * iota)\<close>.\<close>

definition NOTSET :: int where "NOTSET = 0"
definition DEBUG :: MessageLevel where "DEBUG = 10 * 1"
definition INFO :: MessageLevel where "INFO = 10 * 2"
definition WARNING :: MessageLevel where "WARNING = 10 * 3"
definition ERROR :: MessageLevel where "ERROR = 10 * 4"
definition CRITICAL :: MessageLevel where "CRITICAL = 10 * 5"

text \<open>The verb \<^verbatim>\<open>%d\<close> of fmt.Sprintf on an integer: decimal digits, a minus sign first.\<close>

definition digit_char :: "nat \<Rightarrow> char" where
  "digit_char d = char_of (of_char (CHR ''0'') + d)"

fun decimal :: "nat \<Rightarrow> string" where
  "decimal n = (if n < 10 then [digit_char n] else decimal (n div 10) @ [digit_char (n mod 10)])"

declare decimal.simps [simp del]

definition fmt_d :: "int \<Rightarrow> string" where
  "fmt_d i = (if i < 0 then CHR ''-'' # decimal (nat (- i)) else decimal (nat i))"

definition ESC :: char where "ESC = CHR 0x1B"

text \<open>\<^verbatim>\<open>const LevelColorSeqClear = "\033[0m"\<close>\<close>

definition LevelColorSeqClear :: string where
  "LevelColorSeqClear = ESC # ''[0m''"

text \<open>\<^verbatim>\<open>fmt.Sprintf("\033[%d;%dm", way, MessageLevel(l))\<close>\<close>

definition levelColorSeq :: "MessageLevel \<Rightarrow> int \<Rightarrow> string" where
  "levelColorSeq l way = ESC # ''['' @ fmt_d way @ '';'' @ fmt_d l @ ''m''"

text \<open>
  A Go slice literal with index keys, \<^verbatim>\<open>[]string{k1: v1, ...}\<close>: its length is the largest
  key plus one and every index that is not a key holds the zero value.
\<close>

definition keyed_slice :: "'v \<Rightarrow> (nat \<times> 'v) list \<Rightarrow> 'v list" where
  "keyed_slice zero kvs =
     fold (\<lambda>kv xs. xs[fst kv := snd kv]) kvs
       (replicate (Suc (fold max (map fst kvs) 0)) zero)"

definition LevelColorFlag :: "string list" where
  "LevelColorFlag = keyed_slice []
     [(nat DEBUG, levelColorSeq ColorBlue 0),
      (nat INFO, levelColorSeq ColorGreen 0),
      (nat WARNING, levelColorSeq ColorYellow 0),
      (nat ERROR, levelColorSeq ColorRed 1),
      (nat CRITICAL, levelColorSeq ColorMagenta 1)]"

definition LevelString :: "MessageLevel \<rightharpoonup> string" where
  "LevelString = [DEBUG \<mapsto> ''DEBUG'', INFO \<mapsto> ''INFO'', WARNING \<mapsto> ''WARNING'',
     ERROR \<mapsto> ''ERROR'', CRITICAL \<mapsto> ''CRITICAL'']"

text \<open>
  The two index expressions of Go. \<^verbatim>\<open>s[i]\<close> on a slice panics when \<open>i\<close> is negative or not
  below the length; \<^verbatim>\<open>m[k]\<close> on a map gives the zero value for a key that is absent.
\<close>

datatype Panic = IndexOutOfRange

definition slice_index :: "'v list \<Rightarrow> int \<Rightarrow> Panic + 'v" where
  "slice_index xs i =
     (if 0 \<le> i \<and> i < int (length xs) then Inr (xs ! nat i) else Inl IndexOutOfRange)"

definition map_index :: "'v \<Rightarrow> ('k \<rightharpoonup> 'v) \<Rightarrow> 'k \<Rightarrow> 'v" where
  "map_index zero m k = (case m k of None \<Rightarrow> zero | Some v \<Rightarrow> v)"

section \<open>The Logger and its collaborators\<close>

text \<open>\<^verbatim>\<open>&MessageFormatter{Format: ..., TimeFormat: ...}\<close>\<close>

record MessageFormatter =
  Format :: string
  TimeFormat :: string

text \<open>
  A destination is a handle on a byte sink of the embedding application; what is written
  to it lives outside the Logger. \<^verbatim>\<open>os.Stdout\<close> is the one the source names.
\<close>

datatype Destination = Stdout | OpenFile string

text \<open>
  Modelled from the spec: the declarations of \<^verbatim>\<open>StreamMessageHandler\<close>,
  \<^verbatim>\<open>FileMessageHandler\<close>, \<^verbatim>\<open>MessageFormatter\<close>, \<^verbatim>\<open>MessageFilter\<close> and \<^verbatim>\<open>MessageRecord\<close>
  are not part of logger.go. The records below have the fields logger.go reads or sets
  (\<^verbatim>\<open>Level\<close>, \<^verbatim>\<open>Formatter\<close>, \<^verbatim>\<open>Filter\<close>, \<^verbatim>\<open>Destination\<close>; \<^verbatim>\<open>Format\<close>, \<^verbatim>\<open>TimeFormat\<close>); the
  destination of the file handler, which logger.go never names, follows the
  specification: every handler owns one destination. A pointer that may be nil is an
  option. A filter is called as \<^verbatim>\<open>Filter(l)\<close> on the Logger itself and is, by the
  specification, a pure predicate on the Logger's state: the filters are values of a type
  \<open>'f\<close> and the collaborator \<open>callFilter\<close> below runs one on a Logger. The record of a
  call is a value of a type \<open>'r\<close>.
\<close>

record 'f StreamMessageHandler =
  Level :: MessageLevel
  Formatter :: "MessageFormatter option"
  Filter :: "'f option"
  Destination :: Destination

record 'f FileMessageHandler =
  Level :: MessageLevel
  Formatter :: "MessageFormatter option"
  Filter :: "'f option"
  Destination :: Destination

record ('f, 'r) Logger =
  Level :: MessageLevel
  Filter :: "'f option"
  Record :: "'r option"
  StreamHandler :: "'f StreamMessageHandler option"
  FileHandler :: "'f FileMessageHandler option"

text \<open>
  What a call of \<^verbatim>\<open>Write\<close> reports back, and the effect of one log call on the outside
  world: the writes it made, oldest first, each with the handler it went through, the
  destination, the bytes and the reported outcome.
\<close>

datatype WriteError = WriteError string

datatype HandlerKind = Stream | File

datatype Event =
  Wrote (via: HandlerKind) (dest: Destination) (bytes: string) (outcome: "WriteError option")

text \<open>
  The functions logger.go calls and does not define, as parameters of the model:
  \<^item> \<open>GetMessageRecord\<close> builds the record of one call from the level, the format and
    the arguments (it also reads the clock and the call stack);
  \<^item> \<open>callFilter\<close> runs a filter on the Logger: a pure predicate;
  \<^item> \<open>render\<close> is the template engine on a formatter that is present;
  \<^item> \<open>StreamWrite\<close> and \<open>FileWrite\<close> are the \<^verbatim>\<open>Write\<close> methods of the two handlers:
    the outcome of writing the bytes to the handler's destination.
\<close>

record ('f, 'r, 'a) Deps =
  GetMessageRecord :: "MessageLevel \<Rightarrow> string \<Rightarrow> 'a list \<Rightarrow> 'r"
  callFilter :: "'f \<Rightarrow> ('f, 'r) Logger \<Rightarrow> bool"
  render :: "MessageFormatter \<Rightarrow> ('f, 'r) Logger \<Rightarrow> string"
  StreamWrite :: "'f StreamMessageHandler \<Rightarrow> string \<Rightarrow> WriteError option"
  FileWrite :: "'f FileMessageHandler \<Rightarrow> string \<Rightarrow> WriteError option"

text \<open>
  Modelled from the spec: \<^verbatim>\<open>MessageFormatter.GetMessage\<close> is not part of logger.go, which
  calls it on the handler's Formatter without a nil check. The specification makes
  rendering a pure function to bytes that never fails, and an absent Formatter a no-op:
  here it renders nothing.
\<close>

definition GetMessage ::
  "('f, 'r, 'a) Deps \<Rightarrow> MessageFormatter option \<Rightarrow> ('f, 'r) Logger \<Rightarrow> string" where
  "GetMessage D fo l = (case fo of None \<Rightarrow> [] | Some f \<Rightarrow> render D f l)"

text \<open>\<^verbatim>\<open>func GetDefaultLogger() *Logger\<close>; the fields left out of the literal are nil.\<close>

definition GetDefaultLogger :: "('f, 'r) Logger" where
  \<open>GetDefaultLogger =
     \<lparr> Level = DEBUG,
       Filter = None,
       Record = None,
       StreamHandler = Some
         \<lparr> StreamMessageHandler.Level = DEBUG,
           Formatter = Some
             \<lparr> Format = ''{{.Color}}[{{.Time}}] {{.LevelString | printf "%8s"}}  {{.FuncName}} {{.ShortFileName}} {{.Line}} {{.ColorClear}} {{.Message}}'',
               TimeFormat = ''2006-01-02 15:04:05'' \<rparr>,
           Filter = None,
           Destination = Stdout \<rparr>,
       FileHandler = None \<rparr>\<close>

text \<open>
  \<^verbatim>\<open>func (l *Logger) log(level MessageLevel, format string, a ...interface{})\<close>.
  The Go function returns nothing and mutates \<open>l\<close>; the model returns the Logger after the
  call and the writes made, in the order they were made. The results of both \<^verbatim>\<open>Write\<close>
  calls are dropped by the source; the model keeps them in the event only.
\<close>

definition log ::
  "('f, 'r, 'a) Deps \<Rightarrow> ('f, 'r) Logger \<Rightarrow> MessageLevel \<Rightarrow> string \<Rightarrow> 'a list
     \<Rightarrow> ('f, 'r) Logger \<times> Event list" where
  "log D l level format a =
     (if level \<ge> Level l then
        let l = l\<lparr>Record := Some (GetMessageRecord D level format a)\<rparr> in
        if (case Filter l of None \<Rightarrow> True | Some f \<Rightarrow> callFilter D f l) then
          let stream =
                (case StreamHandler l of
                   None \<Rightarrow> []
                 | Some h \<Rightarrow>
                     if level \<ge> StreamMessageHandler.Level h then
                       if (case StreamMessageHandler.Filter h of
                             None \<Rightarrow> True | Some f \<Rightarrow> callFilter D f l)
                       then [Wrote Stream (StreamMessageHandler.Destination h)
                               (GetMessage D (StreamMessageHandler.Formatter h) l)
                               (StreamWrite D h (GetMessage D (StreamMessageHandler.Formatter h) l))]
                       else []
                     else []);
              file =
                (case FileHandler l of
                   None \<Rightarrow> []
                 | Some h \<Rightarrow>
                     if level \<ge> FileMessageHandler.Level h then
                       if (case FileMessageHandler.Filter h of
                             None \<Rightarrow> True | Some f \<Rightarrow> callFilter D f l)
                       then [Wrote File (FileMessageHandler.Destination h)
                               (GetMessage D (FileMessageHandler.Formatter h) l)
                               (FileWrite D h (GetMessage D (FileMessageHandler.Formatter h) l))]
                       else []
                     else [])
          in (l, stream @ file)
        else (l, [])
      else (l, []))"

text \<open>The five public operations, one per severity name.\<close>

definition Logger_DEBUG ::
  "('f, 'r, 'a) Deps \<Rightarrow> ('f, 'r) Logger \<Rightarrow> string \<Rightarrow> 'a list \<Rightarrow> ('f, 'r) Logger \<times> Event list" where
  "Logger_DEBUG D l format a = log D l DEBUG format a"

definition Logger_INFO ::
  "('f, 'r, 'a) Deps \<Rightarrow> ('f, 'r) Logger \<Rightarrow> string \<Rightarrow> 'a list \<Rightarrow> ('f, 'r) Logger \<times> Event list" where
  "Logger_INFO D l format a = log D l INFO format a"

definition Logger_WARNING ::
  "('f, 'r, 'a) Deps \<Rightarrow> ('f, 'r) Logger \<Rightarrow> string \<Rightarrow> 'a list \<Rightarrow> ('f, 'r) Logger \<times> Event list" where
  "Logger_WARNING D l format a = log D l WARNING format a"

definition Logger_ERROR ::
  "('f, 'r, 'a) Deps \<Rightarrow> ('f, 'r) Logger \<Rightarrow> string \<Rightarrow> 'a list \<Rightarrow> ('f, 'r) Logger \<times> Event list" where
  "Logger_ERROR D l format a = log D l ERROR format a"

definition Logger_CRITICAL ::
  "('f, 'r, 'a) Deps \<Rightarrow> ('f, 'r) Logger \<Rightarrow> string \<Rightarrow> 'a list \<Rightarrow> ('f, 'r) Logger \<times> Event list" where
  "Logger_CRITICAL D l format a = log D l CRITICAL format a"

text \<open>The writes of a call that went through one of the two handlers.\<close>

definition writes_via :: "HandlerKind \<Rightarrow> Event list \<Rightarrow> Event list" where
  "writes_via k evs = filter (\<lambda>e. via e = k) evs"

section \<open>The dispatch algorithm in the words of the specification\<close>

text \<open>
  Section 4.5 of the specification, step by step, for comparison with \<open>log\<close>: a filter
  that is configured and returns false stops the step, an absent one does not; a handler
  is skipped when the level is below its own or its filter refuses, and otherwise renders
  with its Formatter and writes.
\<close>

definition spec_filter_allows ::
  "('f, 'r, 'a) Deps \<Rightarrow> 'f option \<Rightarrow> ('f, 'r) Logger \<Rightarrow> bool" where
  "spec_filter_allows D fo l = (case fo of None \<Rightarrow> True | Some f \<Rightarrow> callFilter D f l)"

definition spec_handler_step ::
  "HandlerKind \<Rightarrow> MessageLevel \<Rightarrow> MessageLevel \<Rightarrow> bool \<Rightarrow> Destination \<Rightarrow> string
     \<Rightarrow> WriteError option \<Rightarrow> Event list" where
  "spec_handler_step k level handler_level allowed d rendered res =
     (if level < handler_level then []
      else if \<not> allowed then []
      else [Wrote k d rendered res])"

definition spec_four_gates ::
  "('f, 'r, 'a) Deps \<Rightarrow> ('f, 'r) Logger \<Rightarrow> MessageLevel \<Rightarrow> MessageLevel \<Rightarrow> 'f option \<Rightarrow> bool" where
  "spec_four_gates D l level handler_level handler_filter =
     (level \<ge> Level l \<and> level \<ge> handler_level
      \<and> spec_filter_allows D (Filter l) l \<and> spec_filter_allows D handler_filter l)"

definition spec_stream_step ::
  "('f, 'r, 'a) Deps \<Rightarrow> ('f, 'r) Logger \<Rightarrow> MessageLevel \<Rightarrow> Event list" where
  "spec_stream_step D l level =
     (case StreamHandler l of
        None \<Rightarrow> []
      | Some h \<Rightarrow>
          spec_handler_step Stream level (StreamMessageHandler.Level h)
            (spec_filter_allows D (StreamMessageHandler.Filter h) l)
            (StreamMessageHandler.Destination h)
            (GetMessage D (StreamMessageHandler.Formatter h) l)
            (StreamWrite D h (GetMessage D (StreamMessageHandler.Formatter h) l)))"

definition spec_file_step ::
  "('f, 'r, 'a) Deps \<Rightarrow> ('f, 'r) Logger \<Rightarrow> MessageLevel \<Rightarrow> Event list" where
  "spec_file_step D l level =
     (case FileHandler l of
        None \<Rightarrow> []
      | Some h \<Rightarrow>
          spec_handler_step File level (FileMessageHandler.Level h)
            (spec_filter_allows D (FileMessageHandler.Filter h) l)
            (FileMessageHandler.Destination h)
            (GetMessage D (FileMessageHandler.Formatter h) l)
            (FileWrite D h (GetMessage D (FileMessageHandler.Formatter h) l)))"

section \<open>The template of the default formatter\<close>

text \<open>
  The Format string is run by Go's text/template. The part of that language the default
  template uses is modelled: text is copied, \<^verbatim>\<open>{{.Name}}\<close> inserts a field of the record,
  and \<^verbatim>\<open>{{.Name | printf "%Ns"}}\<close> inserts it with spaces added on the left until it is
  \<open>N\<close> characters wide. A template with an action of any other form (or one that is not
  closed) is outside this part, and the model gives no result for it.
\<close>

datatype Piece = Literal string | FieldRef string "nat option"

fun chunks :: "bool \<Rightarrow> string \<Rightarrow> string \<Rightarrow> (bool \<times> string) list" where
  "chunks inside cur [] = [(inside, rev cur)]"
| "chunks inside cur [c] = [(inside, rev (c # cur))]"
| "chunks inside cur (c # d # cs) =
     (if \<not> inside \<and> c = CHR ''{'' \<and> d = CHR ''{'' then (False, rev cur) # chunks True [] cs
      else if inside \<and> c = CHR ''}'' \<and> d = CHR ''}'' then (True, rev cur) # chunks False [] cs
      else chunks inside (c # cur) (d # cs))"

definition trim :: "string \<Rightarrow> string" where
  "trim s = rev (dropWhile (\<lambda>c. c = CHR '' '') (rev (dropWhile (\<lambda>c. c = CHR '' '') s)))"

definition is_digit :: "char \<Rightarrow> bool" where
  "is_digit c = (of_char (CHR ''0'') \<le> (of_char c :: nat) \<and> (of_char c :: nat) \<le> of_char (CHR ''9''))"

definition digits_value :: "string \<Rightarrow> nat" where
  "digits_value ds = foldl (\<lambda>n c. 10 * n + (of_char c - of_char (CHR ''0''))) 0 ds"

text \<open>
  The command \<^verbatim>\<open>printf "%Ns"\<close> with a plain width: decimal digits that do not start with
  0 (a leading 0, like \<^verbatim>\<open>-\<close> or \<^verbatim>\<open>+\<close>, is a flag of fmt and not modelled).
\<close>

definition printf_width :: "string \<Rightarrow> nat option" where
  \<open>printf_width cmd =
     (let pre = ''printf "%''; post = ''s"'';
          ds = take (length cmd - length pre - length post) (drop (length pre) cmd)
      in if cmd = pre @ ds @ post \<and> ds \<noteq> [] \<and> list_all is_digit ds \<and> hd ds \<noteq> CHR ''0''
         then Some (digits_value ds) else None)\<close>

definition is_letter :: "char \<Rightarrow> bool" where
  "is_letter c =
     ((of_char (CHR ''A'') \<le> (of_char c :: nat) \<and> (of_char c :: nat) \<le> of_char (CHR ''Z''))
      \<or> (of_char (CHR ''a'') \<le> (of_char c :: nat) \<and> (of_char c :: nat) \<le> of_char (CHR ''z''))
      \<or> c = CHR ''_'')"

definition is_field_name :: "string \<Rightarrow> bool" where
  "is_field_name s =
     (case s of [] \<Rightarrow> False | c # t \<Rightarrow> is_letter c \<and> list_all (\<lambda>x. is_letter x \<or> is_digit x) t)"

definition parse_action :: "string \<Rightarrow> Piece option" where
  "parse_action body =
     (case trim body of
        [] \<Rightarrow> None
      | c # t \<Rightarrow>
          if c \<noteq> CHR ''.'' then None
          else
            let name = takeWhile (\<lambda>x. x \<noteq> CHR '' '' \<and> x \<noteq> CHR ''|'') t;
                rest = trim (dropWhile (\<lambda>x. x \<noteq> CHR '' '' \<and> x \<noteq> CHR ''|'') t)
            in if \<not> is_field_name name then None
               else (case rest of
                       [] \<Rightarrow> Some (FieldRef name None)
                     | p # cmd \<Rightarrow>
                         if p \<noteq> CHR ''|'' then None
                         else map_option (\<lambda>w. FieldRef name (Some w)) (printf_width (trim cmd))))"

fun pieces :: "(bool \<times> string) list \<Rightarrow> Piece list option" where
  "pieces [] = Some []"
| "pieces [(inside, s)] = (if inside then None else Some [Literal s])"
| "pieces ((inside, s) # rest) =
     (case (if inside then parse_action s else Some (Literal s)) of
        None \<Rightarrow> None
      | Some p \<Rightarrow> map_option ((#) p) (pieces rest))"

definition parse_template :: "string \<Rightarrow> Piece list option" where
  "parse_template s = pieces (chunks False [] s)"

text \<open>
  The width of \<^verbatim>\<open>%Ns\<close> is counted in runes, by \<^verbatim>\<open>utf8.RuneCountInString\<close>: a byte below
  0x80 is one rune; a lead byte followed by the continuation bytes its table entry asks for
  is one rune of two, three or four bytes; any other byte is one rune on its own. For a
  lead byte, \<open>lead\<close> gives the size of the encoding and the range allowed for its second
  byte; the later bytes are in 0x80 to 0xBF.
\<close>

definition lead :: "nat \<Rightarrow> (nat \<times> nat \<times> nat) option" where
  "lead b =
     (if 0xC2 \<le> b \<and> b \<le> 0xDF then Some (2, 0x80, 0xBF)
      else if b = 0xE0 then Some (3, 0xA0, 0xBF)
      else if 0xE1 \<le> b \<and> b \<le> 0xEC then Some (3, 0x80, 0xBF)
      else if b = 0xED then Some (3, 0x80, 0x9F)
      else if 0xEE \<le> b \<and> b \<le> 0xEF then Some (3, 0x80, 0xBF)
      else if b = 0xF0 then Some (4, 0x90, 0xBF)
      else if 0xF1 \<le> b \<and> b \<le> 0xF3 then Some (4, 0x80, 0xBF)
      else if b = 0xF4 then Some (4, 0x80, 0x8F)
      else None)"

definition between :: "nat \<Rightarrow> nat \<Rightarrow> nat \<Rightarrow> bool" where
  "between lo hi b = (lo \<le> b \<and> b \<le> hi)"

definition rune_size :: "nat \<Rightarrow> nat list \<Rightarrow> nat" where
  "rune_size c rest =
     (case lead c of
        None \<Rightarrow> 1
      | Some (n, lo, hi) \<Rightarrow>
          if Suc (length rest) < n then 1
          else if \<not> between lo hi (rest ! 0) then 1
          else if n = 2 then 2
          else if \<not> between 0x80 0xBF (rest ! 1) then 1
          else if n = 3 then 3
          else if \<not> between 0x80 0xBF (rest ! 2) then 1
          else 4)"

function rune_count :: "nat list \<Rightarrow> nat" where
  "rune_count [] = 0"
| "rune_count (c # rest) = Suc (rune_count (drop (rune_size c rest - 1) rest))"
  by pat_completeness auto
termination
  by (relation "measure length") auto

definition pad_left :: "nat \<Rightarrow> string \<Rightarrow> string" where
  "pad_left w s = replicate (w - rune_count (map of_char s)) (CHR '' '') @ s"

fun render_piece :: "(string \<Rightarrow> string) \<Rightarrow> Piece \<Rightarrow> string" where
  "render_piece env (Literal s) = s"
| "render_piece env (FieldRef name None) = env name"
| "render_piece env (FieldRef name (Some w)) = pad_left w (env name)"

definition execute_template :: "string \<Rightarrow> (string \<Rightarrow> string) \<Rightarrow> string option" where
  "execute_template s env =
     map_option (\<lambda>ps. concat (map (render_piece env) ps)) (parse_template s)"

section \<open>A sample configuration\<close>

text \<open>
  The configuration of section 8 of the specification: a Logger at INFO with a stream
  handler at DEBUG and a file handler at WARNING. The sample record keeps the level and
  the format; the sample filters refuse, allow, or look at the level of the record. In
  the sample world every write to the console fails and every write to a file succeeds.
\<close>

datatype SampleFilter = Refuse | Allow | RecordAtLeast MessageLevel

definition run_sample_filter ::
  "SampleFilter \<Rightarrow> (SampleFilter, MessageLevel \<times> string) Logger \<Rightarrow> bool" where
  "run_sample_filter f l =
     (case f of
        Refuse \<Rightarrow> False
      | Allow \<Rightarrow> True
      | RecordAtLeast n \<Rightarrow> (case Record l of None \<Rightarrow> False | Some r \<Rightarrow> fst r \<ge> n))"

definition sample_deps :: "(SampleFilter, MessageLevel \<times> string, string) Deps" where
  "sample_deps =
     \<lparr> GetMessageRecord = (\<lambda>level format a. (level, format)),
       callFilter = run_sample_filter,
       render = (\<lambda>f l. case Record l of None \<Rightarrow> [] | Some r \<Rightarrow> Format f @ snd r),
       StreamWrite = (\<lambda>h b. Some (WriteError ''broken pipe'')),
       FileWrite = (\<lambda>h b. None) \<rparr>"

definition sample_logger :: "(SampleFilter, MessageLevel \<times> string) Logger" where
  "sample_logger =
     \<lparr> Level = INFO,
       Filter = None,
       Record = None,
       StreamHandler = Some
         \<lparr> StreamMessageHandler.Level = DEBUG,
           Formatter = Some \<lparr> Format = ''> '', TimeFormat = [] \<rparr>,
           Filter = None,
           Destination = Stdout \<rparr>,
       FileHandler = Some
         \<lparr> FileMessageHandler.Level = WARNING,
           Formatter = None,
           Filter = None,
           Destination = OpenFile ''app.log'' \<rparr> \<rparr>"

text \<open>The printed fields of one record, for the default template.\<close>

definition sample_fields :: "string \<Rightarrow> string" where
  "sample_fields name =
     (if name = ''Color'' then ESC # ''[0;32m''
      else if name = ''Time'' then ''2024-05-06 07:08:09''
      else if name = ''LevelString'' then ''INFO''
      else if name = ''FuncName'' then ''main.main''
      else if name = ''ShortFileName'' then ''main.go''
      else if name = ''Line'' then ''42''
      else if name = ''ColorClear'' then ESC # ''[0m''
      else if name = ''Message'' then ''started''
      else [])"

text \<open>
  The same Logger with filters: the Logger-level one allows everything, the stream
  handler's lets only records at ERROR or above through.
\<close>

definition filtered_logger :: "(SampleFilter, MessageLevel \<times> string) Logger" where
  "filtered_logger =
     sample_logger
       \<lparr> Filter := Some Allow,
         StreamHandler := Some
           \<lparr> StreamMessageHandler.Level = DEBUG,
             Formatter = Some \<lparr> Format = ''> '', TimeFormat = [] \<rparr>,
             Filter = Some (RecordAtLeast ERROR),
             Destination = Stdout \<rparr> \<rparr>"

section \<open>Properties of the dispatch\<close>

lemmas level_defs = DEBUG_def INFO_def WARNING_def ERROR_def CRITICAL_def

lemmas sample_defs = sample_deps_def sample_logger_def filtered_logger_def run_sample_filter_def

lemmas spec_defs = spec_filter_allows_def spec_four_gates_def spec_handler_step_def
  spec_stream_step_def spec_file_step_def

lemmas public_defs = Logger_DEBUG_def Logger_INFO_def Logger_WARNING_def Logger_ERROR_def
  Logger_CRITICAL_def

text \<open>
  C1. A handler formats and writes the message of a log call exactly when the four gates
  pass: the level is at least the Logger's, at least the handler's, the Logger's filter
  (when present) allows, and the handler's filter (when present) allows. When the
  Logger's filter refuses nothing is written; when one handler's filter refuses only that
  handler is silent.
\<close>

theorem log_writes_iff_four_gates:
  assumes "l' = l\<lparr>Record := Some (GetMessageRecord D level format a)\<rparr>"
    and "evs = snd (log D l level format a)"
  shows
    "writes_via Stream evs =
       (case StreamHandler l of
          None \<Rightarrow> []
        | Some h \<Rightarrow>
            if spec_four_gates D l' level (StreamMessageHandler.Level h) (StreamMessageHandler.Filter h)
            then [Wrote Stream (StreamMessageHandler.Destination h)
                    (GetMessage D (StreamMessageHandler.Formatter h) l')
                    (StreamWrite D h (GetMessage D (StreamMessageHandler.Formatter h) l'))]
            else [])
     \<and> writes_via File evs =
       (case FileHandler l of
          None \<Rightarrow> []
        | Some h \<Rightarrow>
            if spec_four_gates D l' level (FileMessageHandler.Level h) (FileMessageHandler.Filter h)
            then [Wrote File (FileMessageHandler.Destination h)
                    (GetMessage D (FileMessageHandler.Formatter h) l')
                    (FileWrite D h (GetMessage D (FileMessageHandler.Formatter h) l'))]
            else [])
     \<and> (\<not> spec_filter_allows D (Filter l) l' \<longrightarrow> evs = [])
     \<and> (\<forall>sh fh. StreamHandler l = Some sh \<and> FileHandler l = Some fh
           \<and> \<not> spec_filter_allows D (StreamMessageHandler.Filter sh) l'
           \<and> spec_four_gates D l' level (FileMessageHandler.Level fh) (FileMessageHandler.Filter fh)
           \<longrightarrow> writes_via Stream evs = [] \<and> writes_via File evs \<noteq> [])
     \<and> (\<forall>sh fh. StreamHandler l = Some sh \<and> FileHandler l = Some fh
           \<and> \<not> spec_filter_allows D (FileMessageHandler.Filter fh) l'
           \<and> spec_four_gates D l' level (StreamMessageHandler.Level sh) (StreamMessageHandler.Filter sh)
           \<longrightarrow> writes_via File evs = [] \<and> writes_via Stream evs \<noteq> [])"
  unfolding assms
  by (auto simp add: log_def Let_def writes_via_def spec_defs split: option.splits)

theorem log_writes_iff_four_gates_witness:
  "writes_via Stream (snd (log sample_deps filtered_logger WARNING ''low disk'' [])) = []
   \<and> writes_via File (snd (log sample_deps filtered_logger WARNING ''low disk'' []))
       = [Wrote File (OpenFile ''app.log'') [] None]
   \<and> writes_via Stream (snd (log sample_deps filtered_logger ERROR ''disk full'' []))
       = [Wrote Stream Stdout ''> disk full'' (Some (WriteError ''broken pipe''))]"
  using log_writes_iff_four_gates
          [where D = sample_deps and l = filtered_logger and level = WARNING
             and format = "''low disk''" and a = "[]", OF refl refl]
        log_writes_iff_four_gates
          [where D = sample_deps and l = filtered_logger and level = ERROR
             and format = "''disk full''" and a = "[]", OF refl refl]
  by (simp add: sample_defs level_defs spec_defs GetMessage_def)

text \<open>
  C2. A log call changes no field of the Logger but Record. When the level is at least
  the Logger's, Record becomes the record built for this call; when it is below, the call
  returns at once: the Logger is as it was and nothing is written. The record of a call
  replaces the one of the call before.
\<close>

theorem log_frame:
  "Level (fst (log D l level format a)) = Level l
   \<and> Filter (fst (log D l level format a)) = Filter l
   \<and> StreamHandler (fst (log D l level format a)) = StreamHandler l
   \<and> FileHandler (fst (log D l level format a)) = FileHandler l
   \<and> (level \<ge> Level l \<longrightarrow>
        Record (fst (log D l level format a)) = Some (GetMessageRecord D level format a))
   \<and> (level < Level l \<longrightarrow> log D l level format a = (l, []))
   \<and> (level2 \<ge> Level l \<longrightarrow>
        Record (fst (log D2 (fst (log D l level format a)) level2 format2 a2))
          = Some (GetMessageRecord D2 level2 format2 a2))"
  by (simp add: log_def Let_def)

theorem log_frame_witness:
  "log sample_deps sample_logger DEBUG ''tick'' [] = (sample_logger, [])
   \<and> Record (fst (log sample_deps sample_logger ERROR ''disk full'' [])) = Some (ERROR, ''disk full'')
   \<and> Level (fst (log sample_deps sample_logger ERROR ''disk full'' [])) = INFO
   \<and> Record (fst (log sample_deps (fst (log sample_deps sample_logger ERROR ''disk full'' []))
                  INFO ''restarted'' [])) = Some (INFO, ''restarted'')"
  using log_frame [where D = sample_deps and l = sample_logger and level = DEBUG
                     and format = "''tick''" and a = "[]" and ?D2.0 = sample_deps
                     and ?level2.0 = DEBUG and ?format2.0 = "''tick''" and ?a2.0 = "[]"]
        log_frame [where D = sample_deps and l = sample_logger and level = ERROR
                     and format = "''disk full''" and a = "[]" and ?D2.0 = sample_deps
                     and ?level2.0 = INFO and ?format2.0 = "''restarted''" and ?a2.0 = "[]"]
  by (simp add: sample_defs level_defs)

text \<open>
  C3. What the stream handler's write reports has no influence on the rest of the call:
  the Logger after the call and the writes through the file handler are the same whatever
  the write functions return, for \<open>log\<close> and for the five public operations, which hand
  nothing back to the caller. When the stream write fails and the file handler is
  eligible, the file handler still writes its rendering of the same record.
\<close>

theorem stream_write_failure_isolated:
  assumes "l' = l\<lparr>Record := Some (GetMessageRecord D level format a)\<rparr>"
  shows
    "fst (log (D\<lparr>StreamWrite := sw, FileWrite := fw\<rparr>) l level format a) = fst (log D l level format a)
     \<and> writes_via File (snd (log (D\<lparr>StreamWrite := sw\<rparr>) l level format a))
         = writes_via File (snd (log D l level format a))
     \<and> fst (Logger_DEBUG (D\<lparr>StreamWrite := sw, FileWrite := fw\<rparr>) l format a) = fst (Logger_DEBUG D l format a)
     \<and> fst (Logger_INFO (D\<lparr>StreamWrite := sw, FileWrite := fw\<rparr>) l format a) = fst (Logger_INFO D l format a)
     \<and> fst (Logger_WARNING (D\<lparr>StreamWrite := sw, FileWrite := fw\<rparr>) l format a) = fst (Logger_WARNING D l format a)
     \<and> fst (Logger_ERROR (D\<lparr>StreamWrite := sw, FileWrite := fw\<rparr>) l format a) = fst (Logger_ERROR D l format a)
     \<and> fst (Logger_CRITICAL (D\<lparr>StreamWrite := sw, FileWrite := fw\<rparr>) l format a) = fst (Logger_CRITICAL D l format a)
     \<and> (\<forall>sh fh e. StreamHandler l = Some sh \<and> FileHandler l = Some fh
            \<and> spec_four_gates D l' level (StreamMessageHandler.Level sh) (StreamMessageHandler.Filter sh)
            \<and> StreamWrite D sh (GetMessage D (StreamMessageHandler.Formatter sh) l') = Some e
            \<and> spec_four_gates D l' level (FileMessageHandler.Level fh) (FileMessageHandler.Filter fh)
          \<longrightarrow> log D l level format a =
                (l', [Wrote Stream (StreamMessageHandler.Destination sh)
                        (GetMessage D (StreamMessageHandler.Formatter sh) l') (Some e),
                      Wrote File (FileMessageHandler.Destination fh)
                        (GetMessage D (FileMessageHandler.Formatter fh) l')
                        (FileWrite D fh (GetMessage D (FileMessageHandler.Formatter fh) l'))]))"
  unfolding assms
  by (auto simp add: log_def Let_def writes_via_def spec_defs GetMessage_def public_defs
      split: option.splits)

theorem stream_write_failure_isolated_witness:
  "StreamWrite sample_deps
      \<lparr> StreamMessageHandler.Level = DEBUG,
        Formatter = Some \<lparr> Format = ''> '', TimeFormat = [] \<rparr>,
        Filter = None, Destination = Stdout \<rparr> ''> disk full''
     = Some (WriteError ''broken pipe'')
   \<and> log sample_deps sample_logger ERROR ''disk full'' [] =
     (sample_logger\<lparr>Record := Some (ERROR, ''disk full'')\<rparr>,
      [Wrote Stream Stdout ''> disk full'' (Some (WriteError ''broken pipe'')),
       Wrote File (OpenFile ''app.log'') [] None])"
  using stream_write_failure_isolated
          [where D = sample_deps and l = sample_logger and level = ERROR
             and format = "''disk full''" and a = "[]", OF refl]
  by (simp add: sample_defs level_defs spec_defs GetMessage_def)

text \<open>
  C4. An absent optional component never stops the dispatch. A Logger without a filter
  goes on to its handlers; a handler without a filter, when the other gates pass, writes;
  and an eligible handler without a Formatter writes the empty rendering, after which the
  other handler is served as usual.
\<close>

theorem absent_components_pass_through:
  assumes "l' = l\<lparr>Record := Some (GetMessageRecord D level format a)\<rparr>"
    and "evs = snd (log D l level format a)"
  shows
    "(level \<ge> Level l \<and> Filter l = None \<longrightarrow>
        evs = spec_stream_step D l' level @ spec_file_step D l' level)
     \<and> (\<forall>h. StreamHandler l = Some h \<and> StreamMessageHandler.Filter h = None
            \<and> level \<ge> Level l \<and> spec_filter_allows D (Filter l) l'
            \<and> level \<ge> StreamMessageHandler.Level h
          \<longrightarrow> writes_via Stream evs =
                [Wrote Stream (StreamMessageHandler.Destination h)
                   (GetMessage D (StreamMessageHandler.Formatter h) l')
                   (StreamWrite D h (GetMessage D (StreamMessageHandler.Formatter h) l'))])
     \<and> (\<forall>h. FileHandler l = Some h \<and> FileMessageHandler.Filter h = None
            \<and> level \<ge> Level l \<and> spec_filter_allows D (Filter l) l'
            \<and> level \<ge> FileMessageHandler.Level h
          \<longrightarrow> writes_via File evs =
                [Wrote File (FileMessageHandler.Destination h)
                   (GetMessage D (FileMessageHandler.Formatter h) l')
                   (FileWrite D h (GetMessage D (FileMessageHandler.Formatter h) l'))])
     \<and> (\<forall>h. StreamHandler l = Some h \<and> StreamMessageHandler.Formatter h = None
            \<and> spec_four_gates D l' level (StreamMessageHandler.Level h) (StreamMessageHandler.Filter h)
          \<longrightarrow> writes_via Stream evs =
                [Wrote Stream (StreamMessageHandler.Destination h) [] (StreamWrite D h [])]
              \<and> writes_via File evs = spec_file_step D l' level)
     \<and> (\<forall>h. FileHandler l = Some h \<and> FileMessageHandler.Formatter h = None
            \<and> spec_four_gates D l' level (FileMessageHandler.Level h) (FileMessageHandler.Filter h)
          \<longrightarrow> writes_via File evs =
                [Wrote File (FileMessageHandler.Destination h) [] (FileWrite D h [])]
              \<and> writes_via Stream evs = spec_stream_step D l' level)"
  unfolding assms
  by (auto simp add: log_def Let_def writes_via_def spec_defs GetMessage_def split: option.splits)

theorem absent_components_pass_through_witness:
  "Filter sample_logger = None
   \<and> snd (log sample_deps sample_logger WARNING ''low disk'' []) =
       [Wrote Stream Stdout ''> low disk'' (Some (WriteError ''broken pipe'')),
        Wrote File (OpenFile ''app.log'') [] None]
   \<and> writes_via File (snd (log sample_deps sample_logger WARNING ''low disk'' [])) =
       [Wrote File (OpenFile ''app.log'') [] None]"
  using absent_components_pass_through
          [where D = sample_deps and l = sample_logger and level = WARNING
             and format = "''low disk''" and a = "[]", OF refl refl]
  by (simp add: sample_defs level_defs spec_defs GetMessage_def writes_via_def)

lemma rune_count_ascii:
  "\<forall>b \<in> set bs. b < 128 \<Longrightarrow> rune_count bs = length bs"
proof (induction bs)
  case Nil
  then show ?case by simp
next
  case (Cons c rest)
  then have "lead c = None" by (simp add: lead_def)
  then have "rune_size c rest = 1" by (simp add: rune_size_def)
  then show ?case using Cons by simp
qed

lemma pad_left_ascii:
  assumes "\<forall>c \<in> set s. (of_char c :: nat) < 128"
  shows "pad_left w s = replicate (w - length s) (CHR '' '') @ s"
  using assms rune_count_ascii [of "map of_char s"] by (simp add: pad_left_def)

lemma pad_left_counts_runes:
  "pad_left 8 [CHR 0xC3, CHR 0xA9] = replicate 7 (CHR '' '') @ [CHR 0xC3, CHR 0xA9]"
  by (simp add: pad_left_def rune_size_def lead_def between_def eval_nat_numeral)

text \<open>
  C5. The default Logger has minimum level DEBUG, no filter, no file handler, and one
  stream handler at minimum level DEBUG that writes to the standard output. Its template
  renders the colour start, the time in brackets, the level name, the function name, the
  short file name, the line, the colour clear and the message, in this order; a level
  name in ASCII of fewer than eight characters is preceded by the spaces that make it
  eight characters wide, and a longer one is rendered as it is.
\<close>

theorem GetDefaultLogger_configuration:
  \<open>Level GetDefaultLogger = DEBUG
   \<and> DEBUG = 10
   \<and> Filter GetDefaultLogger = None
   \<and> FileHandler GetDefaultLogger = None
   \<and> (\<exists>h f. StreamHandler GetDefaultLogger = Some h
         \<and> StreamMessageHandler.Level h = DEBUG
         \<and> StreamMessageHandler.Filter h = None
         \<and> StreamMessageHandler.Destination h = Stdout
         \<and> StreamMessageHandler.Formatter h = Some f
         \<and> (\<forall>env. (\<forall>c \<in> set (env ''LevelString''). (of_char c :: nat) < 128) \<longrightarrow>
              execute_template (Format f) env =
              Some (env ''Color'' @ ''['' @ env ''Time'' @ ''] ''
                    @ replicate (8 - length (env ''LevelString'')) (CHR '' '')
                    @ env ''LevelString'' @ ''  ''
                    @ env ''FuncName'' @ '' '' @ env ''ShortFileName'' @ '' ''
                    @ env ''Line'' @ '' '' @ env ''ColorClear'' @ '' '' @ env ''Message'')))\<close>
  by (simp add: GetDefaultLogger_def DEBUG_def execute_template_def parse_template_def
      parse_action_def trim_def printf_width_def is_digit_def digits_value_def Let_def
      is_field_name_def is_letter_def pad_left_ascii)

theorem GetDefaultLogger_configuration_witness:
  "\<exists>h f. StreamHandler (GetDefaultLogger :: (unit, unit) Logger) = Some h
      \<and> StreamMessageHandler.Formatter h = Some f
      \<and> execute_template (Format f) sample_fields =
          Some (CHR 0x1B # ''[0;32m[2024-05-06 07:08:09]     INFO  main.main main.go 42 ''
                @ CHR 0x1B # ''[0m started'')"
proof -
  obtain h :: "unit StreamMessageHandler" and f where
    h: "StreamHandler (GetDefaultLogger :: (unit, unit) Logger) = Some h"
    and f: "StreamMessageHandler.Formatter h = Some f"
    and r: "\<forall>env. (\<forall>c \<in> set (env ''LevelString''). (of_char c :: nat) < 128) \<longrightarrow>
              execute_template (Format f) env =
              Some (env ''Color'' @ ''['' @ env ''Time'' @ ''] ''
                    @ replicate (8 - length (env ''LevelString'')) (CHR '' '')
                    @ env ''LevelString'' @ ''  ''
                    @ env ''FuncName'' @ '' '' @ env ''ShortFileName'' @ '' ''
                    @ env ''Line'' @ '' '' @ env ''ColorClear'' @ '' '' @ env ''Message'')"
    using GetDefaultLogger_configuration [where ?'a = unit and ?'b = unit] by blast
  have ascii: "\<forall>c \<in> set (sample_fields ''LevelString''). (of_char c :: nat) < 128"
    by (simp add: sample_fields_def)
  have "execute_template (Format f) sample_fields =
          Some (CHR 0x1B # ''[0;32m[2024-05-06 07:08:09]     INFO  main.main main.go 42 ''
                @ CHR 0x1B # ''[0m started'')"
    using r ascii by (simp add: sample_fields_def ESC_def eval_nat_numeral)
  with h f show ?thesis by blast
qed

lemma rank_values: "DEBUG = 10 \<and> INFO = 20 \<and> WARNING = 30 \<and> ERROR = 40 \<and> CRITICAL = 50"
  by (simp add: level_defs)

lemma logger_gate: "level < Level l \<Longrightarrow> snd (log D l level format a) = []"
  by (simp add: log_def)

lemma stream_gate:
  "StreamHandler l = Some h \<Longrightarrow> level < StreamMessageHandler.Level h
   \<Longrightarrow> writes_via Stream (snd (log D l level format a)) = []"
  by (simp add: log_def Let_def writes_via_def split: option.splits)

lemma file_gate:
  "FileHandler l = Some h \<Longrightarrow> level < FileMessageHandler.Level h
   \<Longrightarrow> writes_via File (snd (log D l level format a)) = []"
  by (simp add: log_def Let_def writes_via_def split: option.splits)

lemma stream_level_gates_only:
  "Filter l = None \<Longrightarrow> StreamHandler l = Some h \<Longrightarrow> StreamMessageHandler.Filter h = None
   \<Longrightarrow> writes_via Stream (snd (log D l level format a)) \<noteq> []
       \<longleftrightarrow> Level l \<le> level \<and> StreamMessageHandler.Level h \<le> level"
  by (simp add: log_def Let_def writes_via_def split: option.splits)

lemma file_level_gates_only:
  "Filter l = None \<Longrightarrow> FileHandler l = Some h \<Longrightarrow> FileMessageHandler.Filter h = None
   \<Longrightarrow> writes_via File (snd (log D l level format a)) \<noteq> []
       \<longleftrightarrow> Level l \<le> level \<and> FileMessageHandler.Level h \<le> level"
  by (simp add: log_def Let_def writes_via_def split: option.splits)

text \<open>
  C6. The ranks are DEBUG = 10, INFO = 20, WARNING = 30, ERROR = 40 and CRITICAL = 50, and
  each level gate of \<open>log\<close> is the order of the integers on ranks: below the Logger's
  level nothing is written, below a handler's level that handler writes nothing, and with
  no filter configured a handler writes exactly when the level is at least the Logger's
  and at least its own.
\<close>

theorem severity_ranks:
  assumes "evs = snd (log D l level format a)"
  shows
    "DEBUG = 10 \<and> INFO = 20 \<and> WARNING = 30 \<and> ERROR = 40 \<and> CRITICAL = 50
     \<and> (level < Level l \<longrightarrow> evs = [])
     \<and> (\<forall>h. StreamHandler l = Some h \<and> level < StreamMessageHandler.Level h
           \<longrightarrow> writes_via Stream evs = [])
     \<and> (\<forall>h. FileHandler l = Some h \<and> level < FileMessageHandler.Level h
           \<longrightarrow> writes_via File evs = [])
     \<and> (\<forall>h. Filter l = None \<and> StreamHandler l = Some h \<and> StreamMessageHandler.Filter h = None
           \<longrightarrow> (writes_via Stream evs \<noteq> [] \<longleftrightarrow> Level l \<le> level \<and> StreamMessageHandler.Level h \<le> level))
     \<and> (\<forall>h. Filter l = None \<and> FileHandler l = Some h \<and> FileMessageHandler.Filter h = None
           \<longrightarrow> (writes_via File evs \<noteq> [] \<longleftrightarrow> Level l \<le> level \<and> FileMessageHandler.Level h \<le> level))"
  unfolding assms
  using rank_values logger_gate [of level l D format a]
    stream_gate [of l _ level D format a] file_gate [of l _ level D format a]
    stream_level_gates_only [of l _ D level format a]
    file_level_gates_only [of l _ D level format a]
  by blast

theorem severity_ranks_witness:
  "writes_via Stream (snd (log sample_deps sample_logger INFO ''started'' [])) \<noteq> []
   \<and> writes_via File (snd (log sample_deps sample_logger INFO ''started'' [])) = []
   \<and> snd (log sample_deps sample_logger DEBUG ''tick'' []) = []
   \<and> INFO < WARNING"
proof -
  have at_info:
    "writes_via Stream (snd (log sample_deps sample_logger INFO ''started'' [])) \<noteq> []
     \<and> writes_via File (snd (log sample_deps sample_logger INFO ''started'' [])) = []
     \<and> INFO < WARNING"
    using severity_ranks
            [where D = sample_deps and l = sample_logger and level = INFO
               and format = "''started''" and a = "[]", OF refl]
    by (simp add: sample_defs level_defs)
  have at_debug: "snd (log sample_deps sample_logger DEBUG ''tick'' []) = []"
    using severity_ranks
            [where D = sample_deps and l = sample_logger and level = DEBUG
               and format = "''tick''" and a = "[]", OF refl]
    by (simp add: sample_defs level_defs writes_via_def)
  show ?thesis using at_info at_debug by simp
qed

text \<open>
  C7. The colour start sequence of a canonical level is ESC, an opening bracket, the style,
  a semicolon, the colour and the letter m: style 0 and colour 34 for DEBUG, 32 for INFO,
  33 for WARNING; style 1 and colour 31 for ERROR, 35 for CRITICAL. The clear sequence is
  ESC, an opening bracket, 0 and m.
\<close>

theorem level_colour_sequences:
  "ColorRed = 31 \<and> ColorGreen = 32 \<and> ColorYellow = 33 \<and> ColorBlue = 34 \<and> ColorMagenta = 35
   \<and> slice_index LevelColorFlag DEBUG = Inr (CHR 0x1B # ''[0;34m'')
   \<and> slice_index LevelColorFlag INFO = Inr (CHR 0x1B # ''[0;32m'')
   \<and> slice_index LevelColorFlag WARNING = Inr (CHR 0x1B # ''[0;33m'')
   \<and> slice_index LevelColorFlag ERROR = Inr (CHR 0x1B # ''[1;31m'')
   \<and> slice_index LevelColorFlag CRITICAL = Inr (CHR 0x1B # ''[1;35m'')
   \<and> LevelColorSeqClear = CHR 0x1B # ''[0m''"
  by code_simp

lemma spec_handler_step_via:
  "e \<in> set (spec_handler_step k level hl allowed d b r) \<Longrightarrow> via e = k"
  by (auto simp add: spec_handler_step_def split: if_splits)

lemma spec_stream_step_via: "e \<in> set (spec_stream_step D l level) \<Longrightarrow> via e = Stream"
  by (auto simp add: spec_stream_step_def dest: spec_handler_step_via split: option.splits)

lemma spec_file_step_via: "e \<in> set (spec_file_step D l level) \<Longrightarrow> via e = File"
  by (auto simp add: spec_file_step_def dest: spec_handler_step_via split: option.splits)

lemma log_spec_steps:
  assumes "level \<ge> Level l"
    and "l' = l\<lparr>Record := Some (GetMessageRecord D level format a)\<rparr>"
    and "spec_filter_allows D (Filter l) l'"
  shows "log D l level format a = (l', spec_stream_step D l' level @ spec_file_step D l' level)"
  using assms
  by (simp add: log_def Let_def spec_defs split: option.splits)

text \<open>
  C8. In a log call that passes the Logger's level and filter, the writes are those of the
  stream handler's step followed by those of the file handler's step; a step is empty
  when the level is below the handler's or its filter refuses, and otherwise is the write
  of the rendering by the handler's own Formatter.
\<close>

theorem log_refines_spec_steps:
  assumes "level \<ge> Level l"
    and "l' = l\<lparr>Record := Some (GetMessageRecord D level format a)\<rparr>"
    and "spec_filter_allows D (Filter l) l'"
  shows "log D l level format a = (l', spec_stream_step D l' level @ spec_file_step D l' level)
     \<and> (\<forall>e \<in> set (spec_stream_step D l' level). via e = Stream)
     \<and> (\<forall>e \<in> set (spec_file_step D l' level). via e = File)"
  using log_spec_steps [OF assms] spec_stream_step_via spec_file_step_via
  by blast

theorem log_refines_spec_steps_witness:
  "log sample_deps sample_logger CRITICAL ''meltdown'' [] =
     (sample_logger\<lparr>Record := Some (CRITICAL, ''meltdown'')\<rparr>,
      [Wrote Stream Stdout ''> meltdown'' (Some (WriteError ''broken pipe'')),
       Wrote File (OpenFile ''app.log'') [] None])"
  using log_refines_spec_steps
          [where D = sample_deps and l = sample_logger and level = CRITICAL
             and format = "''meltdown''" and a = "[]", OF _ refl]
  by (simp add: sample_defs level_defs spec_defs GetMessage_def)

lemma fold_update_length:
  "length (fold (\<lambda>kv xs. xs[fst kv := snd kv]) kvs xs) = length xs"
  by (induction kvs arbitrary: xs) simp_all

lemma fold_update_other:
  "k \<notin> fst ` set kvs \<Longrightarrow> fold (\<lambda>kv xs. xs[fst kv := snd kv]) kvs xs ! k = xs ! k"
  by (induction kvs arbitrary: xs) auto

lemma keyed_slice_length:
  "length (keyed_slice zero kvs) = Suc (fold max (map fst kvs) 0)"
  by (simp add: keyed_slice_def fold_update_length)

lemma keyed_slice_other:
  "k \<notin> fst ` set kvs \<Longrightarrow> k < length (keyed_slice zero kvs) \<Longrightarrow> keyed_slice zero kvs ! k = zero"
  by (simp add: keyed_slice_def fold_update_other fold_update_length del: replicate.simps)

lemma LevelColorFlag_length: "length LevelColorFlag = 51"
  by (simp add: LevelColorFlag_def keyed_slice_length level_defs)

lemma LevelColorFlag_other:
  assumes "0 \<le> i" "i \<le> 50" "i \<notin> {DEBUG, INFO, WARNING, ERROR, CRITICAL}"
  shows "LevelColorFlag ! nat i = []"
proof -
  have "nat i \<notin> fst ` set [(nat DEBUG, levelColorSeq ColorBlue 0),
      (nat INFO, levelColorSeq ColorGreen 0),
      (nat WARNING, levelColorSeq ColorYellow 0),
      (nat ERROR, levelColorSeq ColorRed 1),
      (nat CRITICAL, levelColorSeq ColorMagenta 1)]"
    using assms by (auto simp add: level_defs)
  moreover have "nat i < length LevelColorFlag"
    using assms by (simp add: LevelColorFlag_length)
  ultimately show ?thesis
    unfolding LevelColorFlag_def by (rule keyed_slice_other)
qed

lemma LevelString_other:
  "i \<notin> {DEBUG, INFO, WARNING, ERROR, CRITICAL} \<Longrightarrow> map_index [] LevelString i = []"
  by (simp add: map_index_def LevelString_def)

lemma canonical_entries:
  "map_index [] LevelString DEBUG = ''DEBUG''
   \<and> map_index [] LevelString INFO = ''INFO''
   \<and> map_index [] LevelString WARNING = ''WARNING''
   \<and> map_index [] LevelString ERROR = ''ERROR''
   \<and> map_index [] LevelString CRITICAL = ''CRITICAL''
   \<and> slice_index LevelColorFlag DEBUG = Inr (levelColorSeq ColorBlue 0)
   \<and> slice_index LevelColorFlag INFO = Inr (levelColorSeq ColorGreen 0)
   \<and> slice_index LevelColorFlag WARNING = Inr (levelColorSeq ColorYellow 0)
   \<and> slice_index LevelColorFlag ERROR = Inr (levelColorSeq ColorRed 1)
   \<and> slice_index LevelColorFlag CRITICAL = Inr (levelColorSeq ColorMagenta 1)"
  by code_simp

lemma levelColorSeq_not_empty: "levelColorSeq l way \<noteq> []"
  by (simp add: levelColorSeq_def)

text \<open>
  C9, as the code has it. The name table answers for every rank, with the empty name for a
  rank that is not one of the five. The colour table is a slice of 51 entries: indexing it
  succeeds exactly for the ranks from 0 to 50, with the empty sequence for those that are
  not canonical. The five canonical ranks, the only ones the public operations pass to
  \<open>log\<close>, have a name and a colour sequence that are not empty.
\<close>

theorem level_table_lookups:
  "(i \<notin> {DEBUG, INFO, WARNING, ERROR, CRITICAL} \<longrightarrow> map_index [] LevelString i = [])
   \<and> ((\<exists>s. slice_index LevelColorFlag i = Inr s) \<longleftrightarrow> 0 \<le> i \<and> i \<le> 50)
   \<and> (0 \<le> i \<and> i \<le> 50 \<and> i \<notin> {DEBUG, INFO, WARNING, ERROR, CRITICAL}
        \<longrightarrow> slice_index LevelColorFlag i = Inr [])
   \<and> (i \<in> {DEBUG, INFO, WARNING, ERROR, CRITICAL}
        \<longrightarrow> map_index [] LevelString i \<noteq> []
            \<and> (\<exists>s. slice_index LevelColorFlag i = Inr s \<and> s \<noteq> []))"
proof -
  have other_name:
    "i \<notin> {DEBUG, INFO, WARNING, ERROR, CRITICAL} \<longrightarrow> map_index [] LevelString i = []"
    using LevelString_other [of i] by blast
  have range: "(\<exists>s. slice_index LevelColorFlag i = Inr s) \<longleftrightarrow> 0 \<le> i \<and> i \<le> 50"
    by (auto simp add: slice_index_def LevelColorFlag_length)
  have other_colour:
    "0 \<le> i \<and> i \<le> 50 \<and> i \<notin> {DEBUG, INFO, WARNING, ERROR, CRITICAL}
       \<longrightarrow> slice_index LevelColorFlag i = Inr []"
    using LevelColorFlag_other [of i] by (simp add: slice_index_def LevelColorFlag_length)
  have canonical:
    "i \<in> {DEBUG, INFO, WARNING, ERROR, CRITICAL}
       \<longrightarrow> map_index [] LevelString i \<noteq> []
           \<and> (\<exists>s. slice_index LevelColorFlag i = Inr s \<and> s \<noteq> [])"
    using canonical_entries levelColorSeq_not_empty by auto
  show ?thesis using other_name range other_colour canonical by blast
qed

theorem level_table_lookups_witness:
  "map_index [] LevelString 45 = [] \<and> slice_index LevelColorFlag 45 = Inr []
   \<and> map_index [] LevelString 60 = []
   \<and> map_index [] LevelString ERROR \<noteq> []"
  using level_table_lookups [of 45] level_table_lookups [of 60] level_table_lookups [of ERROR]
  by (simp add: level_defs)

text \<open>
  C9, as stated, fails for a rank above CRITICAL: index 60 is outside the colour table.
\<close>

theorem LevelColorFlag_lookup_counterexample:
  "slice_index LevelColorFlag 60 = Inl IndexOutOfRange"
  by code_simp

text \<open>
  C10. A Logger has one optional stream handler and one optional file handler, as two
  fields; a log call therefore makes at most one write through the stream handler, at
  most one through the file handler, and at most two in all.
\<close>

theorem log_at_most_two_writes:
  "length (writes_via Stream (snd (log D l level format a))) \<le> 1
   \<and> length (writes_via File (snd (log D l level format a))) \<le> 1
   \<and> length (snd (log D l level format a)) \<le> 2"
  by (simp add: log_def Let_def writes_via_def split: option.splits)

end
